theory Spec2Isabelle
  imports Main "HOL-Library.Sublist"
begin

section \<open>Python values used by the remote-operation helpers\<close>

text \<open>
  The two modules \<^verbatim>\<open>remote_linux_commands.py\<close> and \<^verbatim>\<open>pick_unused_port.py\<close> pass around
  three kinds of Python values: \<^verbatim>\<open>None\<close>, a \<^verbatim>\<open>str\<close> and a list of \<^verbatim>\<open>str\<close>. An exception
  is a value of \<open>py_error\<close>; a function that may raise returns \<open>py_error + 'a\<close>.
  \<open>NoPortsFound\<close> is declared by \<^verbatim>\<open>pick_unused_port.py\<close> and is kept as a constructor so
  that "is never raised" can be stated.
\<close>

datatype py_error =
    TypeError
  | RemoteCommandError string
  | NoCommandFoundError string
  | NoPortsFound string

datatype pyval = PyNone | PyStr string | PyList "string list"

text \<open>Truth value of an object in a condition (\<^verbatim>\<open>if catch_errors and error\<close>).\<close>

fun truthy :: "pyval \<Rightarrow> bool" where
  "truthy PyNone = False"
| "truthy (PyStr s) = (s \<noteq> [])"
| "truthy (PyList xs) = (xs \<noteq> [])"

text \<open>\<^verbatim>\<open>sep.join(xs)\<close> on a list of strings.\<close>

fun py_join :: "string \<Rightarrow> string list \<Rightarrow> string" where
  "py_join sep [] = []"
| "py_join sep [x] = x"
| "py_join sep (x # y # ys) = x @ sep @ py_join sep (y # ys)"

text \<open>
  \<^verbatim>\<open>sep.join(v)\<close> on an arbitrary value: \<^verbatim>\<open>None\<close> is not iterable (TypeError), a \<^verbatim>\<open>str\<close> is
  iterated character by character, a list of strings is joined.
\<close>

fun str_join :: "string \<Rightarrow> pyval \<Rightarrow> py_error + string" where
  "str_join sep PyNone = Inl TypeError"
| "str_join sep (PyStr s) = Inr (py_join sep (map (\<lambda>c. [c]) s))"
| "str_join sep (PyList xs) = Inr (py_join sep xs)"

text \<open>\<^verbatim>\<open>str(n)\<close> for an integer: decimal digits, with a leading minus sign below zero.\<close>

fun str_nat :: "nat \<Rightarrow> string" where
  "str_nat n =
     (if n < 10 then [''0123456789'' ! n]
      else str_nat (n div 10) @ [''0123456789'' ! (n mod 10)])"

declare str_nat.simps [simp del]

definition str_int :: "int \<Rightarrow> string" where
  "str_int i = (if i < 0 then CHR ''-'' # str_nat (nat (- i)) else str_nat (nat i))"

text \<open>\<^verbatim>\<open>'%s' % host\<close> where \<^verbatim>\<open>host\<close> is a string or \<^verbatim>\<open>None\<close>.\<close>

fun str_host :: "string option \<Rightarrow> string" where
  "str_host None = ''None''"
| "str_host (Some h) = h"

text \<open>
  \<^verbatim>\<open>re.search(pattern, v)\<close>, reduced to "was a match found". The only patterns the source
  passes are \<^verbatim>\<open>str(port)\<close>: digits and possibly a minus sign, none of which is a regular
  expression metacharacter, so on a \<^verbatim>\<open>str\<close> the search is a substring test. On anything that
  is not a string \<^verbatim>\<open>re.search\<close> raises TypeError ("expected string or bytes-like object").
\<close>

fun re_search :: "string \<Rightarrow> pyval \<Rightarrow> py_error + bool" where
  "re_search pat (PyStr s) = Inr (sublist pat s)"
| "re_search pat PyNone = Inl TypeError"
| "re_search pat (PyList xs) = Inl TypeError"

text \<open>
  \<^verbatim>\<open>re.match('Warning: no access to tty|Thus no job control in this shell', line)\<close>:
  \<^verbatim>\<open>re.match\<close> anchors at the start of the line, and both alternatives are literal text.
\<close>

definition re_match_warning :: "string \<Rightarrow> bool" where
  "re_match_warning line \<longleftrightarrow>
     prefix ''Warning: no access to tty'' line \<or>
     prefix ''Thus no job control in this shell'' line"

text \<open>\<^verbatim>\<open>xs[k:]\<close>: a negative start counts from the end, and is clipped at 0.\<close>

definition py_slice_from :: "'a list \<Rightarrow> int \<Rightarrow> 'a list" where
  "py_slice_from xs k =
     (if k < 0 then drop (nat (int (length xs) + k)) xs else drop (nat k) xs)"


section \<open>The subprocess interface\<close>

text \<open>
  A call of \<^verbatim>\<open>subprocess.Popen\<close> is recorded with the command, the \<^verbatim>\<open>shell\<close> flag, which of
  the three streams were given \<^verbatim>\<open>subprocess.PIPE\<close>, and the names of the keyword arguments
  as the source spells them.
\<close>

datatype py_cmd = CmdStr string | CmdList "string list"

record popen_call =
  pc_cmd :: py_cmd
  pc_shell :: bool
  pc_stdin :: bool
  pc_stdout :: bool
  pc_stderr :: bool
  pc_keywords :: "string list"

text \<open>What a function does to the outside, in order.\<close>

datatype event =
    PopenCall popen_call
  | StdinWrite string
  | StdinClose
  | Communicate string
  | StdoutReadlines
  | StderrReadlines
  | Terminate

text \<open>
  The environment of a call: \<open>accepts\<close> says whether the \<^verbatim>\<open>Popen\<close> constructor in use takes
  the call (it raises TypeError on a keyword it does not declare), and \<open>child\<close> is the spawned
  program: from the call and the chunks of text it is sent on its standard input to the lines
  it writes on its standard output and on its standard error.
\<close>

record world =
  accepts :: "popen_call \<Rightarrow> bool"
  child :: "popen_call \<Rightarrow> string list \<Rightarrow> string list \<times> string list"

definition Popen :: "world \<Rightarrow> popen_call \<Rightarrow> py_error + popen_call" where
  "Popen w c = (if accepts w c then Inr c else Inl TypeError)"

text \<open>Everything sent to the child's standard input so far.\<close>

fun stdin_data :: "event list \<Rightarrow> string list" where
  "stdin_data [] = []"
| "stdin_data (StdinWrite s # es) = s # stdin_data es"
| "stdin_data (Communicate s # es) = s # stdin_data es"
| "stdin_data (e # es) = stdin_data es"

text \<open>The arguments of the \<^verbatim>\<open>stdin.write\<close> calls alone.\<close>

fun stdin_writes :: "event list \<Rightarrow> string list" where
  "stdin_writes [] = []"
| "stdin_writes (StdinWrite s # es) = s # stdin_writes es"
| "stdin_writes (e # es) = stdin_writes es"

text \<open>
  \<^verbatim>\<open>p.communicate(input)\<close> in text mode: the data of a stream that was not given
  \<^verbatim>\<open>subprocess.PIPE\<close> is \<^verbatim>\<open>None\<close>; a piped stream yields its whole text as one \<^verbatim>\<open>str\<close>.
\<close>

definition communicate :: "world \<Rightarrow> popen_call \<Rightarrow> string list \<Rightarrow> pyval \<times> pyval" where
  "communicate w p sent =
     (let (out, err) = child w p sent
      in (if pc_stdout p then PyStr (concat out) else PyNone,
          if pc_stderr p then PyStr (concat err) else PyNone))"


section \<open>remote\_linux\_commands.remote\_operations\<close>

text \<open>The two \<^verbatim>\<open>Popen\<close> calls of \<^verbatim>\<open>remote_operations\<close> (lines 73 to 81).\<close>

definition tty_call :: "string \<Rightarrow> int \<Rightarrow> popen_call" where
  "tty_call remote_host port =
     \<lparr> pc_cmd = CmdList [''ssh'', remote_host, ''-p'', str_int port, ''-ttt''],
       pc_shell = False, pc_stdin = True, pc_stdout = False, pc_stderr = False,
       pc_keywords = [''shell'', ''stdin'', ''universal_newlines'', ''buffsize''] \<rparr>"

definition shell_call :: "string \<Rightarrow> int \<Rightarrow> popen_call" where
  "shell_call remote_host port =
     \<lparr> pc_cmd = CmdStr (''ssh '' @ remote_host @ '' -p '' @ str_int port),
       pc_shell = True, pc_stdin = True, pc_stdout = True, pc_stderr = True,
       pc_keywords = [''shell'', ''stdin'', ''stdout'', ''stderr'', ''universal_newlines'',
                      ''buffsize''] \<rparr>"

text \<open>The loop of lines 82 and 83: one \<^verbatim>\<open>stdin.write('%s\n' % command)\<close> per command.\<close>

fun write_commands :: "event list \<Rightarrow> string list \<Rightarrow> event list" where
  "write_commands t [] = t"
| "write_commands t (command # rest) =
     write_commands (t @ [StdinWrite (command @ ''\<newline>'')]) rest"

text \<open>The loop of lines 90 to 96 over \<^verbatim>\<open>stdout.readlines()\<close>.\<close>

fun collect_output :: "string list \<Rightarrow> string list \<Rightarrow> string list" where
  "collect_output result [] = result"
| "collect_output result (line # rest) =
     (if re_match_warning line then collect_output result rest
      else collect_output (result @ [line]) rest)"

text \<open>
  The function itself. Its optional arguments are passed explicitly (the defaults of the
  source are \<^verbatim>\<open>port=22\<close>, \<^verbatim>\<open>catch_errors=True\<close>, \<^verbatim>\<open>tty_session=False\<close> and
  \<^verbatim>\<open>banner_size=0\<close>). The result is the value returned or the exception raised, together
  with what the call did to the outside. In tty mode the process is not terminated, and
  neither is it after a RemoteCommandError, as in the source.
\<close>

definition remote_operations ::
  "world \<Rightarrow> string \<Rightarrow> string list \<Rightarrow> int \<Rightarrow> bool \<Rightarrow> bool \<Rightarrow> int
     \<Rightarrow> (py_error + pyval) \<times> event list" where
  "remote_operations w remote_host commands port catch_errors tty_session banner_size =
     (let call = (if tty_session then tty_call remote_host port
                  else shell_call remote_host port)
      in case Popen w call of
           Inl e \<Rightarrow> (Inl e, [PopenCall call])
         | Inr p \<Rightarrow>
             (let t1 = write_commands [PopenCall call] commands
              in if tty_session then
                   (let t2 = t1 @ [Communicate ''logout\<newline>''];
                        (result, error) = communicate w p (stdin_data t2)
                    in if catch_errors \<and> truthy error then
                         (case str_join ''\<newline>'' error of
                            Inl e \<Rightarrow> (Inl e, t2)
                          | Inr msg \<Rightarrow> (Inl (RemoteCommandError msg), t2))
                       else (Inr result, t2))
                 else
                   (let t2 = t1 @ [StdinClose, StdoutReadlines];
                        result = collect_output [] (fst (child w p (stdin_data t2)))
                    in if catch_errors then
                         (let t3 = t2 @ [StderrReadlines];
                              error = snd (child w p (stdin_data t3));
                              error = (if banner_size \<noteq> 0 then py_slice_from error banner_size
                                       else error)
                          in if error \<noteq> [] then
                               (Inl (RemoteCommandError (py_join ''\<newline>'' error)), t3)
                             else (Inr (PyList result), t3 @ [Terminate]))
                       else (Inr (PyList result), t2 @ [Terminate]))))"


section \<open>pick\_unused\_port.pick\_port\<close>

definition netstat_call :: popen_call where
  "netstat_call =
     \<lparr> pc_cmd = CmdList [''netstat -tulnp''],
       pc_shell = True, pc_stdin = True, pc_stdout = True, pc_stderr = True,
       pc_keywords = [''shell'', ''stdin'', ''stdout'', ''stderr'', ''universal_newlines'',
                      ''buffsize''] \<rparr>"

text \<open>
  Lines 53 to 61: the listing is read from a local \<^verbatim>\<open>netstat\<close> when \<^verbatim>\<open>host\<close> is \<^verbatim>\<open>None\<close> or
  contains \<^verbatim>\<open>'local'\<close>, and through \<^verbatim>\<open>remote_operations\<close> (no error check, tty session)
  otherwise.
\<close>

definition local_listing :: "world \<Rightarrow> (py_error + pyval) \<times> event list" where
  "local_listing w =
     (case Popen w netstat_call of
        Inl e \<Rightarrow> (Inl e, [PopenCall netstat_call])
      | Inr subp \<Rightarrow>
          (Inr (PyList (fst (child w subp []))),
           [PopenCall netstat_call, StdoutReadlines, Terminate]))"

definition get_listing ::
  "world \<Rightarrow> string option \<Rightarrow> int \<Rightarrow> (py_error + pyval) \<times> event list" where
  "get_listing w host ssh_port =
     (case host of
        None \<Rightarrow> local_listing w
      | Some h \<Rightarrow>
          if sublist ''local'' h then local_listing w
          else remote_operations w h [''netstat -tulnp''] ssh_port False True 0)"

text \<open>
  Lines 67 to 70: the scan of \<^verbatim>\<open>range(port_min, port_max)\<close>. The value searched is
  \<^verbatim>\<open>results\<close>, what the listing step returned, not the joined text \<^verbatim>\<open>str_results\<close>.
\<close>

function scan_ports :: "pyval \<Rightarrow> int \<Rightarrow> int \<Rightarrow> py_error + int option" where
  "scan_ports results port port_max =
     (if port < port_max then
        (case re_search (str_int port) results of
           Inl e \<Rightarrow> Inl e
         | Inr found \<Rightarrow>
             if \<not> found then Inr (Some port)
             else scan_ports results (port + 1) port_max)
      else Inr None)"
  by pat_completeness auto
termination
  by (relation "measure (\<lambda>(results, port, port_max). nat (port_max - port))") auto

declare scan_ports.simps [simp del]

definition not_installed_message :: "string option \<Rightarrow> string" where
  "not_installed_message host =
     ''netstats is not installed on the '' @ str_host host
       @ '' device. Please install it and try again''"

definition pick_port ::
  "world \<Rightarrow> string option \<Rightarrow> int \<Rightarrow> int \<Rightarrow> int \<Rightarrow> (py_error + int option) \<times> event list" where
  "pick_port w host port_min port_max ssh_port =
     (let (r, t) = get_listing w host ssh_port
      in case r of
           Inl e \<Rightarrow> (Inl e, t)
         | Inr results \<Rightarrow>
             (case str_join '', '' results of
                Inl e \<Rightarrow> (Inl e, t)
              | Inr str_results \<Rightarrow>
                  if sublist ''command not found'' str_results then
                    (Inl (NoCommandFoundError (not_installed_message host)), t)
                  else (scan_ports results port_min port_max, t)))"


section \<open>Environments\<close>

text \<open>
  A session whose output does not depend on what it is sent, spawned by a constructor that
  takes every call; the shape of a test double for \<^verbatim>\<open>subprocess.Popen\<close>.
\<close>

definition fixed_session :: "string list \<Rightarrow> string list \<Rightarrow> world" where
  "fixed_session out err = \<lparr> accepts = (\<lambda>c. True), child = (\<lambda>c sent. (out, err)) \<rparr>"

text \<open>
  The keyword parameters of CPython's \<^verbatim>\<open>subprocess.Popen\<close> that matter here: the buffer size
  is spelt \<^verbatim>\<open>bufsize\<close>. A world built on it rejects every call that names another keyword.
\<close>

definition cpython_keywords :: "string list" where
  "cpython_keywords =
     [''bufsize'', ''executable'', ''stdin'', ''stdout'', ''stderr'', ''preexec_fn'',
      ''close_fds'', ''shell'', ''cwd'', ''env'', ''universal_newlines'', ''startupinfo'',
      ''creationflags'']"

definition cpython_session :: "string list \<Rightarrow> string list \<Rightarrow> world" where
  "cpython_session out err =
     \<lparr> accepts = (\<lambda>c. list_all (\<lambda>k. k \<in> set cpython_keywords) (pc_keywords c)),
       child = (\<lambda>c sent. (out, err)) \<rparr>"


section \<open>The loops and the two modes of remote\_operations, unfolded\<close>

lemma write_commands_eq:
  "write_commands t commands = t @ map (\<lambda>c. StdinWrite (c @ ''\<newline>'')) commands"
  by (induction commands arbitrary: t) simp_all

lemma collect_output_eq:
  "collect_output result ls = result @ filter (\<lambda>l. \<not> re_match_warning l) ls"
  by (induction ls arbitrary: result) simp_all

lemma stdin_data_append: "stdin_data (xs @ ys) = stdin_data xs @ stdin_data ys"
  by (induction xs rule: stdin_data.induct) simp_all

lemma stdin_writes_append: "stdin_writes (xs @ ys) = stdin_writes xs @ stdin_writes ys"
  by (induction xs rule: stdin_writes.induct) simp_all

lemma stdin_data_written: "stdin_data (map (\<lambda>c. StdinWrite (f c)) cs) = map f cs"
  by (induction cs) simp_all

lemma stdin_writes_written: "stdin_writes (map (\<lambda>c. StdinWrite (f c)) cs) = map f cs"
  by (induction cs) simp_all

lemma remote_operations_rejected:
  "\<not> accepts w (if tty then tty_call h port else shell_call h port) \<Longrightarrow>
   remote_operations w h cmds port ce tty k =
     (Inl TypeError, [PopenCall (if tty then tty_call h port else shell_call h port)])"
  by (simp add: remote_operations_def Popen_def)

lemma remote_operations_tty:
  "accepts w (tty_call h port) \<Longrightarrow>
   remote_operations w h cmds port ce True k =
     (Inr PyNone,
      PopenCall (tty_call h port) # map (\<lambda>c. StdinWrite (c @ ''\<newline>'')) cmds
        @ [Communicate ''logout\<newline>''])"
  by (simp add: remote_operations_def Popen_def communicate_def write_commands_eq
      split_beta tty_call_def)

lemma remote_operations_shell:
  "accepts w (shell_call h port) \<Longrightarrow>
   remote_operations w h cmds port ce False k =
     (let t1 = PopenCall (shell_call h port) # map (\<lambda>c. StdinWrite (c @ ''\<newline>'')) cmds;
          streams = child w (shell_call h port) (map (\<lambda>c. c @ ''\<newline>'') cmds);
          result = filter (\<lambda>l. \<not> re_match_warning l) (fst streams);
          error = (if k \<noteq> 0 then py_slice_from (snd streams) k else snd streams)
      in if ce then
           (if error \<noteq> [] then
              (Inl (RemoteCommandError (py_join ''\<newline>'' error)),
               t1 @ [StdinClose, StdoutReadlines, StderrReadlines])
            else (Inr (PyList result),
               t1 @ [StdinClose, StdoutReadlines, StderrReadlines, Terminate]))
         else (Inr (PyList result), t1 @ [StdinClose, StdoutReadlines, Terminate]))"
  by (simp add: remote_operations_def Popen_def write_commands_eq collect_output_eq
      stdin_data_append stdin_data_written Let_def)

lemma py_slice_from_Nil: "py_slice_from [] k = []"
  by (simp add: py_slice_from_def)

lemma py_slice_from_nonneg: "0 \<le> k \<Longrightarrow> py_slice_from xs k = drop (nat k) xs"
  by (simp add: py_slice_from_def)

lemma call_neq: "tty_call h port \<noteq> netstat_call"
  by (simp add: tty_call_def netstat_call_def)

lemma remote_operations_tty_outcome:
  "fst (remote_operations w h cmds port ce True k) = Inr PyNone
   \<or> fst (remote_operations w h cmds port ce True k) = Inl TypeError"
proof (cases "accepts w (tty_call h port)")
  case True
  from remote_operations_tty [OF this] show ?thesis by simp
next
  case False
  then have "\<not> accepts w (if True then tty_call h port else shell_call h port)" by simp
  from remote_operations_rejected [OF this] show ?thesis by simp
qed

lemma tty_session_never_RemoteCommandError:
  "fst (remote_operations w h cmds port ce True k) \<noteq> Inl (RemoteCommandError msg)"
  using remote_operations_tty_outcome [of w h cmds port ce k] by auto

lemma sublist_py_join: "x \<in> set xs \<Longrightarrow> sublist x (py_join sep xs)"
proof (induction sep xs rule: py_join.induct)
  case (1 sep)
  then show ?case by simp
next
  case (2 sep y)
  then show ?case by simp
next
  case (3 sep y z zs)
  show ?case
  proof (cases "x = y")
    case True
    then show ?thesis by simp
  next
    case False
    with 3 have "sublist x (py_join sep (z # zs))" by simp
    then have "sublist x ((y @ sep) @ py_join sep (z # zs))"
      by (rule sublist_order.order_trans) (rule sublist_append_leftI)
    then show ?thesis by simp
  qed
qed

lemma shell_session_error_raises:
  assumes "accepts w (shell_call h port)"
    and "error = (if k \<noteq> 0 then py_slice_from (snd (child w (shell_call h port)
                     (map (\<lambda>c. c @ ''\<newline>'') cmds))) k
                  else snd (child w (shell_call h port) (map (\<lambda>c. c @ ''\<newline>'') cmds)))"
    and "line \<in> set error"
  shows "fst (remote_operations w h cmds port True False k)
           = Inl (RemoteCommandError (py_join ''\<newline>'' error))
       \<and> sublist line (py_join ''\<newline>'' error)"
proof -
  from assms(3) have ne: "error \<noteq> []" by auto
  from remote_operations_shell [OF assms(1), of cmds True k] assms(2) ne
  have "fst (remote_operations w h cmds port True False k)
           = Inl (RemoteCommandError (py_join ''\<newline>'' error))"
    by (simp add: Let_def)
  with sublist_py_join [OF assms(3)] show ?thesis by simp
qed

text \<open>
  Without a tty, with the error check and a banner size that is not negative, the outcome
  depends on the error stream through its lines from position \<open>banner_size\<close> on only:
  two sessions that differ in the lines before that position have the same outcome.
\<close>

lemma shell_session_outcome:
  assumes "accepts w (shell_call h port)" and "0 \<le> k"
  shows "fst (remote_operations w h cmds port True False k) =
     (if drop (nat k) (snd (child w (shell_call h port) (map (\<lambda>c. c @ ''\<newline>'') cmds))) \<noteq> []
      then Inl (RemoteCommandError (py_join ''\<newline>''
             (drop (nat k) (snd (child w (shell_call h port)
                (map (\<lambda>c. c @ ''\<newline>'') cmds))))))
      else Inr (PyList (filter (\<lambda>l. \<not> re_match_warning l)
             (fst (child w (shell_call h port) (map (\<lambda>c. c @ ''\<newline>'') cmds))))))"
  using remote_operations_shell [OF assms(1), of cmds True k] assms(2)
  by (simp add: Let_def py_slice_from_nonneg)

lemma banner_content_irrelevant:
  assumes "accepts w1 (shell_call h port) = accepts w2 (shell_call h port)"
    and "fst (child w1 (shell_call h port) (map (\<lambda>c. c @ ''\<newline>'') cmds))
           = fst (child w2 (shell_call h port) (map (\<lambda>c. c @ ''\<newline>'') cmds))"
    and "drop (nat k) (snd (child w1 (shell_call h port) (map (\<lambda>c. c @ ''\<newline>'') cmds)))
           = drop (nat k) (snd (child w2 (shell_call h port) (map (\<lambda>c. c @ ''\<newline>'') cmds)))"
    and "0 \<le> k"
  shows "fst (remote_operations w1 h cmds port True False k)
           = fst (remote_operations w2 h cmds port True False k)"
proof (cases "accepts w1 (shell_call h port)")
  case True
  with assms(1) have a2: "accepts w2 (shell_call h port)" by simp
  show ?thesis
    by (simp only: shell_session_outcome [OF True assms(4)]
        shell_session_outcome [OF a2 assms(4)] assms(2) assms(3))
next
  case False
  with assms(1) have r2: "\<not> accepts w2 (if False then tty_call h port else shell_call h port)"
    by simp
  from False have r1: "\<not> accepts w1 (if False then tty_call h port else shell_call h port)"
    by simp
  from remote_operations_rejected [OF r1] remote_operations_rejected [OF r2]
  show ?thesis by simp
qed


section \<open>The listing step and the scan of pick\_port, unfolded\<close>

lemma local_listing_trace:
  "hd (snd (local_listing w)) = PopenCall netstat_call"
  by (simp add: local_listing_def Popen_def)

lemma remote_operations_trace_hd:
  "hd (snd (remote_operations w h cmds port ce True k)) = PopenCall (tty_call h port)"
proof (cases "accepts w (tty_call h port)")
  case True
  from remote_operations_tty [OF this] show ?thesis by simp
next
  case False
  then have "\<not> accepts w (if True then tty_call h port else shell_call h port)" by simp
  from remote_operations_rejected [OF this] show ?thesis by simp
qed

lemma pick_port_trace: "snd (pick_port w host port_min port_max ssh_port) = snd (get_listing w host ssh_port)"
  by (simp add: pick_port_def split_beta split: sum.splits)

lemma pick_port_outcome:
  "fst (pick_port w host port_min port_max ssh_port) =
     (case fst (get_listing w host ssh_port) of
        Inl e \<Rightarrow> Inl e
      | Inr results \<Rightarrow>
          (case str_join '', '' results of
             Inl e \<Rightarrow> Inl e
           | Inr str_results \<Rightarrow>
               if sublist ''command not found'' str_results then
                 Inl (NoCommandFoundError (not_installed_message host))
               else scan_ports results port_min port_max))"
  by (simp add: pick_port_def split_beta split: sum.splits)

lemma scan_ports_list_TypeError:
  "port_min < port_max \<Longrightarrow> scan_ports (PyList ls) port_min port_max = Inl TypeError"
  by (simp add: scan_ports.simps)

lemma scan_ports_empty_range:
  "port_max \<le> port_min \<Longrightarrow> scan_ports results port_min port_max = Inr None"
  by (simp add: scan_ports.simps)

lemma scan_ports_not_NoPortsFound:
  "scan_ports results port port_max \<noteq> Inl (NoPortsFound m)"
proof (induction results port port_max rule: scan_ports.induct)
  case (1 results port port_max)
  show ?case
  proof (cases results)
    case PyNone
    then show ?thesis by (simp add: scan_ports.simps)
  next
    case (PyList xs)
    then show ?thesis by (simp add: scan_ports.simps)
  next
    case (PyStr s)
    with "1" show ?thesis by (subst scan_ports.simps) simp
  qed
qed

lemma get_listing_errors:
  "fst (get_listing w host ssh_port) = Inl e \<Longrightarrow> e = TypeError"
proof (cases host)
  case None
  assume "fst (get_listing w host ssh_port) = Inl e"
  with None show ?thesis
    by (simp add: get_listing_def local_listing_def Popen_def split: if_splits)
next
  case (Some h)
  assume a: "fst (get_listing w host ssh_port) = Inl e"
  show ?thesis
  proof (cases "sublist ''local'' h")
    case True
    with a Some show ?thesis
      by (simp add: get_listing_def local_listing_def Popen_def split: if_splits)
  next
    case False
    with a Some remote_operations_tty_outcome [of w h "[''netstat -tulnp'']" ssh_port False 0]
    show ?thesis by (auto simp: get_listing_def)
  qed
qed

lemma pick_port_never_NoPortsFound:
  "fst (pick_port w host port_min port_max ssh_port) \<noteq> Inl (NoPortsFound m)"
proof (cases "fst (get_listing w host ssh_port)")
  case (Inl e)
  with get_listing_errors [OF Inl] show ?thesis by (simp add: pick_port_outcome)
next
  case (Inr results)
  then show ?thesis
    by (cases results)
      (simp_all add: pick_port_outcome scan_ports_not_NoPortsFound)
qed

text \<open>
  With the listing read from a local \<^verbatim>\<open>netstat\<close>, \<^verbatim>\<open>results\<close> is the list that
  \<^verbatim>\<open>readlines()\<close> returned: unless the tool is missing, the scan raises TypeError on the
  first port of a range that is not empty, and returns \<^verbatim>\<open>None\<close> on an empty range.
\<close>

lemma pick_port_local_list:
  assumes "accepts w netstat_call"
    and "host = None \<or> (\<exists>h. host = Some h \<and> sublist ''local'' h)"
  shows "fst (pick_port w host port_min port_max ssh_port) =
     (if sublist ''command not found'' (py_join '', '' (fst (child w netstat_call [])))
      then Inl (NoCommandFoundError (not_installed_message host))
      else if port_min < port_max then Inl TypeError else Inr None)"
  using assms
  by (auto simp: pick_port_outcome get_listing_def local_listing_def Popen_def
      scan_ports_list_TypeError scan_ports_empty_range)

text \<open>
  On a remote host the listing comes from \<^verbatim>\<open>remote_operations\<close> in tty mode, whose
  \<^verbatim>\<open>Popen\<close> call pipes the standard input only: \<^verbatim>\<open>communicate\<close> yields \<^verbatim>\<open>None\<close> for the
  output, and \<^verbatim>\<open>', '.join(None)\<close> raises TypeError.
\<close>

lemma pick_port_remote_TypeError:
  "\<not> sublist ''local'' h \<Longrightarrow>
   fst (pick_port w (Some h) port_min port_max ssh_port) = Inl TypeError"
proof (cases "accepts w (tty_call h ssh_port)")
  case True
  assume "\<not> sublist ''local'' h"
  with remote_operations_tty [OF True] show ?thesis
    by (simp add: pick_port_outcome get_listing_def)
next
  case False
  assume nl: "\<not> sublist ''local'' h"
  from False have "\<not> accepts w (if True then tty_call h ssh_port else shell_call h ssh_port)" by simp
  from remote_operations_rejected [OF this] nl show ?thesis
    by (simp add: pick_port_outcome get_listing_def)
qed

text \<open>
  The constructor of the standard library declares \<^verbatim>\<open>bufsize\<close>; all three calls of the
  source pass \<^verbatim>\<open>buffsize\<close>, so with that constructor each of them raises TypeError before a
  process exists. The results below on what a session is sent and returns are therefore
  stated for an environment whose constructor takes the call.
\<close>

lemma cpython_rejects_remote_operations:
  "fst (remote_operations (cpython_session out err) h cmds port ce tty k) = Inl TypeError"
proof -
  have "\<not> accepts (cpython_session out err) (if tty then tty_call h port else shell_call h port)"
    by (simp add: cpython_session_def cpython_keywords_def tty_call_def shell_call_def)
  from remote_operations_rejected [OF this] show ?thesis by simp
qed

lemma cpython_rejects_pick_port:
  "fst (pick_port (cpython_session out err) host port_min port_max ssh_port) = Inl TypeError"
proof -
  have "fst (local_listing (cpython_session out err)) = Inl TypeError"
    by (simp add: local_listing_def Popen_def cpython_session_def cpython_keywords_def
        netstat_call_def)
  then show ?thesis
    by (cases host)
      (simp_all add: pick_port_outcome get_listing_def cpython_rejects_remote_operations)
qed


section \<open>What the two functions do once a process exists\<close>

text \<open>
  The lemmas of this section hold in every environment; what they say about output that is
  returned, about a RemoteCommandError and about a listing that is read can be met only
  where the constructor takes the call, which the constructor of the standard library does
  not (\<open>cpython_rejects_remote_operations\<close>, \<open>cpython_rejects_pick_port\<close>).
\<close>

text \<open>
  Without a tty the returned output is the standard output of the session less the lines that
  start with \<^verbatim>\<open>Warning: no access to tty\<close> or with \<^verbatim>\<open>Thus no job control in this shell\<close>.
  The match is at the start of the line: the message of bash, which puts \<^verbatim>\<open>bash:\<close> first,
  is returned.
\<close>

lemma output_drops_lines_starting_with_warning:
  assumes "fst (remote_operations w remote_host commands port catch_errors False banner_size)
             = Inr out"
  shows "\<exists>ls. out = PyList ls
           \<and> ls = filter (\<lambda>l. \<not> prefix ''Warning: no access to tty'' l
                            \<and> \<not> prefix ''Thus no job control in this shell'' l)
                    (fst (child w (shell_call remote_host port)
                       (map (\<lambda>c. c @ ''\<newline>'') commands)))
           \<and> (\<forall>l \<in> set ls. \<not> prefix ''Warning: no access to tty'' l
                            \<and> \<not> prefix ''Thus no job control in this shell'' l)"
proof (cases "accepts w (shell_call remote_host port)")
  case False
  then have "\<not> accepts w (if False then tty_call remote_host port
                          else shell_call remote_host port)" by simp
  from remote_operations_rejected [OF this] assms show ?thesis by simp
next
  case True
  from remote_operations_shell [OF this] assms show ?thesis
    by (auto simp: Let_def re_match_warning_def split: if_splits)
qed

lemma output_drops_lines_starting_with_warning_example:
  "fst (remote_operations
         (fixed_session [''Warning: no access to tty (Bad file descriptor).\<newline>'',
                         ''Thus no job control in this shell.\<newline>'', ''notes.txt\<newline>''] [])
         ''host'' [''ls''] 22 True False 0) = Inr (PyList [''notes.txt\<newline>''])
   \<and> \<not> prefix ''Warning: no access to tty'' ''notes.txt\<newline>''
   \<and> \<not> prefix ''Thus no job control in this shell'' ''notes.txt\<newline>''"
proof -
  have h: "fst (remote_operations
         (fixed_session [''Warning: no access to tty (Bad file descriptor).\<newline>'',
                         ''Thus no job control in this shell.\<newline>'', ''notes.txt\<newline>''] [])
         ''host'' [''ls''] 22 True False 0) = Inr (PyList [''notes.txt\<newline>''])"
    by code_simp
  from output_drops_lines_starting_with_warning [OF h] h show ?thesis by auto
qed

lemma warning_inside_line_is_kept:
  "fst (remote_operations (fixed_session [''bash: no job control in this shell\<newline>''] [])
         ''host'' [''ls''] 22 True False 0)
     = Inr (PyList [''bash: no job control in this shell\<newline>''])
   \<and> sublist ''no job control in this shell'' ''bash: no job control in this shell\<newline>''"
  by code_simp

text \<open>
  The message of a RemoteCommandError is the join of the lines of the error stream from
  position \<open>banner_size\<close> on (see also \<open>banner_content_irrelevant\<close>): the lines before it
  are left out by position. A later line that repeats the text of a banner line still shows.
\<close>

lemma banner_lines_discarded:
  assumes "fst (remote_operations w remote_host commands port True tty_session banner_size)
             = Inl (RemoteCommandError msg)"
    and "0 \<le> banner_size"
  shows "\<not> tty_session \<and>
         msg = py_join ''\<newline>'' (drop (nat banner_size)
                 (snd (child w (shell_call remote_host port)
                    (map (\<lambda>c. c @ ''\<newline>'') commands))))"
proof (cases "accepts w (if tty_session then tty_call remote_host port
                         else shell_call remote_host port)")
  case False
  from remote_operations_rejected [OF this] assms(1) show ?thesis by simp
next
  case True
  show ?thesis
  proof (cases tty_session)
    case tty: True
    with True have "accepts w (tty_call remote_host port)" by simp
    from remote_operations_tty [OF this] tty assms(1) show ?thesis by simp
  next
    case sh: False
    with True have "accepts w (shell_call remote_host port)" by simp
    from remote_operations_shell [OF this] sh assms show ?thesis
      by (auto simp: Let_def py_slice_from_nonneg split: if_splits)
  qed
qed

lemma banner_lines_discarded_example:
  "fst (remote_operations (fixed_session [] [''Welcome to host\<newline>'', ''disk full\<newline>''])
         ''host'' [''df''] 22 True False 1) = Inl (RemoteCommandError ''disk full\<newline>'')
   \<and> (0::int) \<le> 1
   \<and> ''disk full\<newline>'' = py_join ''\<newline>'' (drop (nat 1) [''Welcome to host\<newline>'', ''disk full\<newline>''])"
proof -
  have h: "fst (remote_operations (fixed_session [] [''Welcome to host\<newline>'', ''disk full\<newline>''])
         ''host'' [''df''] 22 True False 1) = Inl (RemoteCommandError ''disk full\<newline>'')"
    by code_simp
  have k: "(0::int) \<le> 1" by simp
  from banner_lines_discarded [OF h k] h show ?thesis
    by (simp add: fixed_session_def)
qed

lemma repeated_banner_text_in_message:
  "fst (remote_operations (fixed_session [] [''Permission denied\<newline>'', ''Permission denied\<newline>''])
         ''host'' [''df''] 22 True False 1) = Inl (RemoteCommandError ''Permission denied\<newline>'')"
  by code_simp

text \<open>
  Where a process exists the \<^verbatim>\<open>stdin.write\<close> calls are the commands, in their order, each
  followed by a newline; in tty mode \<^verbatim>\<open>communicate\<close> sends \<^verbatim>\<open>logout\<close> after them and the
  call returns \<^verbatim>\<open>None\<close>, since the output of the session is not piped.
\<close>

lemma remote_operations_writes_commands_in_order:
  assumes "accepts w (if tty_session then tty_call remote_host port
                      else shell_call remote_host port)"
  shows "stdin_writes (snd (remote_operations w remote_host commands port catch_errors
             tty_session banner_size))
           = map (\<lambda>c. c @ ''\<newline>'') commands
       \<and> stdin_data (snd (remote_operations w remote_host commands port catch_errors
             tty_session banner_size))
           = map (\<lambda>c. c @ ''\<newline>'') commands
               @ (if tty_session then [''logout\<newline>''] else [])
       \<and> (tty_session \<longrightarrow>
            fst (remote_operations w remote_host commands port catch_errors
              tty_session banner_size) = Inr PyNone)
       \<and> (\<not> tty_session \<and>
            snd (child w (shell_call remote_host port)
              (map (\<lambda>c. c @ ''\<newline>'') commands)) = [] \<longrightarrow>
            fst (remote_operations w remote_host commands port catch_errors
              tty_session banner_size)
              = Inr (PyList (filter (\<lambda>l. \<not> re_match_warning l)
                  (fst (child w (shell_call remote_host port)
                     (map (\<lambda>c. c @ ''\<newline>'') commands))))))"
proof (cases tty_session)
  case True
  with assms have "accepts w (tty_call remote_host port)" by simp
  from remote_operations_tty [OF this] True show ?thesis
    by (simp add: stdin_writes_append stdin_writes_written stdin_data_append
        stdin_data_written)
next
  case False
  with assms have "accepts w (shell_call remote_host port)" by simp
  from remote_operations_shell [OF this] False show ?thesis
    by (simp add: Let_def stdin_writes_append stdin_writes_written stdin_data_append
        stdin_data_written py_slice_from_Nil)
qed

lemma remote_operations_writes_commands_in_order_example:
  "accepts (fixed_session [''notes.txt\<newline>''] []) (shell_call ''host'' 22)
   \<and> stdin_writes (snd (remote_operations (fixed_session [''notes.txt\<newline>''] [])
        ''host'' [''cd /tmp'', ''ls''] 22 True False 0)) = [''cd /tmp\<newline>'', ''ls\<newline>'']
   \<and> fst (remote_operations (fixed_session [''notes.txt\<newline>''] [])
        ''host'' [''cd /tmp'', ''ls''] 22 True False 0) = Inr (PyList [''notes.txt\<newline>''])"
proof -
  have a: "accepts (fixed_session [''notes.txt\<newline>''] [])
             (if False then tty_call ''host'' 22 else shell_call ''host'' 22)"
    by (simp add: fixed_session_def)
  have m: "\<not> re_match_warning ''notes.txt\<newline>''" by code_simp
  from remote_operations_writes_commands_in_order [OF a, of "[''cd /tmp'', ''ls'']" True 0] a m
  show ?thesis by (simp add: fixed_session_def)
qed

text \<open>
  Where a listing was read and could be joined, the test for \<^verbatim>\<open>command not found\<close> comes
  before the scan. Only the local branch gets that far (\<open>pick_port_remote_TypeError\<close>).
\<close>

lemma command_not_found_raises:
  assumes "fst (get_listing w host ssh_port) = Inr results"
    and "str_join '', '' results = Inr str_results"
    and "sublist ''command not found'' str_results"
  shows "fst (pick_port w host port_min port_max ssh_port)
           = Inl (NoCommandFoundError (not_installed_message host))
       \<and> sublist (str_host host) (not_installed_message host)"
proof -
  have "sublist (str_host host) (not_installed_message host)"
    unfolding not_installed_message_def by (rule sublist_appendI)
  with assms show ?thesis by (simp add: pick_port_outcome)
qed

lemma command_not_found_raises_example:
  "fst (get_listing (fixed_session [''sh: netstat: command not found\<newline>''] []) None 22)
     = Inr (PyList [''sh: netstat: command not found\<newline>''])
   \<and> str_join '', '' (PyList [''sh: netstat: command not found\<newline>''])
       = Inr ''sh: netstat: command not found\<newline>''
   \<and> sublist ''command not found'' ''sh: netstat: command not found\<newline>''
   \<and> fst (pick_port (fixed_session [''sh: netstat: command not found\<newline>''] []) None 20 25 22)
       = Inl (NoCommandFoundError
           ''netstats is not installed on the None device. Please install it and try again'')"
proof -
  have h1: "fst (get_listing (fixed_session [''sh: netstat: command not found\<newline>''] []) None 22)
     = Inr (PyList [''sh: netstat: command not found\<newline>''])"
    by code_simp
  have h2: "str_join '', '' (PyList [''sh: netstat: command not found\<newline>''])
       = Inr ''sh: netstat: command not found\<newline>''"
    by simp
  have h3: "sublist ''command not found'' ''sh: netstat: command not found\<newline>''"
    by code_simp
  from command_not_found_raises [OF h1 h2 h3, of 20 25] h1 h2 h3 show ?thesis
    by (simp add: not_installed_message_def)
qed

text \<open>The outcome of \<^verbatim>\<open>pick_port\<close> depends on the environment through the listing step only.\<close>

lemma pick_port_function_of_listing:
  assumes "fst (get_listing w1 host ssh_port1) = fst (get_listing w2 host ssh_port2)"
  shows "fst (pick_port w1 host port_min port_max ssh_port1)
           = fst (pick_port w2 host port_min port_max ssh_port2)"
  using assms by (simp add: pick_port_outcome)


section \<open>The claims\<close>


subsection \<open>C1: the range 20 to 25 against a listing with ports 22 and 80\<close>

text \<open>
  Claim C1 expects \<^verbatim>\<open>pick_port\<close> to return 20 for the range [20, 25) when the joined listing
  holds \<^verbatim>\<open>:22\<close> and \<^verbatim>\<open>:80\<close> and no \<^verbatim>\<open>20\<close>. The listing below is such a one, read from
  a local \<^verbatim>\<open>netstat\<close>; the call does not return 20, it raises TypeError, because line 68
  searches the list \<^verbatim>\<open>results\<close> and not the joined text \<^verbatim>\<open>str_results\<close>.
\<close>

theorem pick_port_range_20_25_raises:
  "sublist '':22'' (py_join '', '' [''tcp 0 0 0.0.0.0:22 0.0.0.0:* LISTEN\<newline>'',
                                   ''tcp 0 0 0.0.0.0:80 0.0.0.0:* LISTEN\<newline>''])
   \<and> sublist '':80'' (py_join '', '' [''tcp 0 0 0.0.0.0:22 0.0.0.0:* LISTEN\<newline>'',
                                     ''tcp 0 0 0.0.0.0:80 0.0.0.0:* LISTEN\<newline>''])
   \<and> \<not> sublist (str_int 20) (py_join '', '' [''tcp 0 0 0.0.0.0:22 0.0.0.0:* LISTEN\<newline>'',
                                     ''tcp 0 0 0.0.0.0:80 0.0.0.0:* LISTEN\<newline>''])
   \<and> fst (pick_port (fixed_session [''tcp 0 0 0.0.0.0:22 0.0.0.0:* LISTEN\<newline>'',
                                    ''tcp 0 0 0.0.0.0:80 0.0.0.0:* LISTEN\<newline>''] [])
            None 20 25 22) = Inl TypeError"
  by code_simp


subsection \<open>C2: error text raises RemoteCommandError\<close>

text \<open>
  Claim C2 expects a call with \<^verbatim>\<open>catch_errors=True\<close>, in either mode, to raise
  RemoteCommandError when the session writes error text. In tty mode the \<^verbatim>\<open>Popen\<close> call does
  not pipe the standard error, \<^verbatim>\<open>communicate\<close> yields \<^verbatim>\<open>None\<close> for it, and the call returns
  without raising. The same call without a tty does raise, with the line as its message
  (in general: lemma \<open>shell_session_error_raises\<close>).
\<close>

theorem tty_session_error_text_not_raised:
  "fst (remote_operations
         (fixed_session [] [''ls: cannot access /nonexistent: No such file or directory\<newline>''])
         ''host'' [''ls /nonexistent''] 22 True True 0) = Inr PyNone
   \<and> fst (remote_operations
         (fixed_session [] [''ls: cannot access /nonexistent: No such file or directory\<newline>''])
         ''host'' [''ls /nonexistent''] 22 True False 0)
       = Inl (RemoteCommandError ''ls: cannot access /nonexistent: No such file or directory\<newline>'')"
  by code_simp


subsection \<open>C3: the benign warnings in the output without a tty\<close>



subsection \<open>C4: the banner lines stay out of the message\<close>



subsection \<open>C5: a missing netstat\<close>

text \<open>
  Claim C5 expects NoCommandFoundError for every host whose listing holds
  \<^verbatim>\<open>command not found\<close>. For a remote host whose session prints that text the call raises
  TypeError: with the constructor of the standard library at the \<^verbatim>\<open>Popen\<close> call of
  \<^verbatim>\<open>remote_operations\<close>, and with a constructor that takes the call at line 62, where
  \<^verbatim>\<open>', '.join\<close> is given the \<^verbatim>\<open>None\<close> that the tty mode returns. For the local machine
  the constructor of the standard library raises TypeError at line 55.
\<close>

theorem remote_command_not_found_raises_TypeError:
  "fst (pick_port (cpython_session [''bash: netstat: command not found\<newline>''] [])
          (Some ''10.0.0.5'') 20 25 22) = Inl TypeError
   \<and> fst (pick_port (fixed_session [''bash: netstat: command not found\<newline>''] [])
          (Some ''10.0.0.5'') 20 25 22) = Inl TypeError
   \<and> fst (pick_port (cpython_session [''sh: netstat: command not found\<newline>''] [])
          None 20 25 22) = Inl TypeError"
  by code_simp


subsection \<open>C6: every port of the range is listed\<close>

text \<open>
  Claim C6 expects \<^verbatim>\<open>None\<close> when the decimal string of every port of the range occurs in
  the listing. For the range [20, 21) and a listing that holds \<^verbatim>\<open>:20\<close> the call raises
  TypeError instead, by the search of line 68 on the list \<^verbatim>\<open>results\<close>. (NoPortsFound is
  indeed never raised: lemma \<open>pick_port_never_NoPortsFound\<close>.)
\<close>

theorem pick_port_full_range_raises:
  "sublist (str_int 20) (py_join '', '' [''tcp 0 0 0.0.0.0:20 0.0.0.0:* LISTEN\<newline>''])
   \<and> fst (pick_port (fixed_session [''tcp 0 0 0.0.0.0:20 0.0.0.0:* LISTEN\<newline>''] [])
            None 20 21 22) = Inl TypeError"
  by code_simp


subsection \<open>C7: the commands are written in order\<close>

text \<open>
  Claim C7 expects the commands to be written to the session in order and, with no error
  output, the call to return the output without raising. With the constructor of the
  standard library the call raises TypeError at the \<^verbatim>\<open>Popen\<close> call, in both modes, and
  nothing is written: the only thing the call does is the constructor call. With a
  constructor that takes the call, the tty mode returns \<^verbatim>\<open>None\<close>, not the line the session
  printed.
\<close>

theorem commands_call_raises_or_returns_None:
  "remote_operations (cpython_session [''notes.txt\<newline>''] []) ''host'' [''cd /tmp'', ''ls'']
       22 True False 0
     = (Inl TypeError, [PopenCall (shell_call ''host'' 22)])
   \<and> stdin_writes (snd (remote_operations (cpython_session [''notes.txt\<newline>''] []) ''host''
       [''cd /tmp'', ''ls''] 22 True False 0)) = []
   \<and> remote_operations (cpython_session [''notes.txt\<newline>''] []) ''host'' [''cd /tmp'', ''ls'']
       22 True True 0
     = (Inl TypeError, [PopenCall (tty_call ''host'' 22)])
   \<and> fst (remote_operations (fixed_session [''notes.txt\<newline>''] []) ''host''
       [''cd /tmp'', ''ls''] 22 True True 0) = Inr PyNone"
  by code_simp


subsection \<open>C8: the result is a function of the inputs and the listing\<close>

text \<open>
  Claim C8: \<^verbatim>\<open>pick_port\<close> is deterministic in the host, the range and the listing. In any
  two environments whose constructors agree on the \<^verbatim>\<open>netstat\<close> call and whose local
  \<^verbatim>\<open>netstat\<close> prints the same lines, two calls with the same host and range have the same
  outcome, whatever else differs (the ssh port, the error output, the remote session).
\<close>

theorem pick_port_deterministic:
  assumes "accepts w1 netstat_call = accepts w2 netstat_call"
    and "fst (child w1 netstat_call []) = fst (child w2 netstat_call [])"
  shows "fst (pick_port w1 host port_min port_max ssh_port1)
           = fst (pick_port w2 host port_min port_max ssh_port2)"
proof (cases "case host of None \<Rightarrow> True | Some h \<Rightarrow> sublist ''local'' h")
  case True
  then have "get_listing w1 host ssh_port1 = local_listing w1"
    and "get_listing w2 host ssh_port2 = local_listing w2"
    by (simp_all add: get_listing_def split: option.splits)
  moreover from assms have "fst (local_listing w1) = fst (local_listing w2)"
    by (simp add: local_listing_def Popen_def)
  ultimately show ?thesis by (simp add: pick_port_outcome)
next
  case False
  then obtain h where "host = Some h" and "\<not> sublist ''local'' h"
    by (cases host) simp_all
  then show ?thesis by (simp add: pick_port_remote_TypeError)
qed

text \<open>
  Instances, in environments that differ in the error output of \<^verbatim>\<open>netstat\<close> and with
  two ssh ports: a listing that is scanned, a listing that reports the tool missing, and
  the latter again with the constructor of the standard library.
\<close>

theorem pick_port_deterministic_witness:
  "accepts (fixed_session [''tcp 0 0 0.0.0.0:22 0.0.0.0:* LISTEN\<newline>''] []) netstat_call
     = accepts (fixed_session [''tcp 0 0 0.0.0.0:22 0.0.0.0:* LISTEN\<newline>''] [''warning\<newline>''])
         netstat_call
   \<and> fst (pick_port (fixed_session [''tcp 0 0 0.0.0.0:22 0.0.0.0:* LISTEN\<newline>''] [''warning\<newline>''])
          None 20 25 2222) = Inl TypeError
   \<and> fst (pick_port (fixed_session [''tcp 0 0 0.0.0.0:22 0.0.0.0:* LISTEN\<newline>''] [])
          None 20 25 22) = Inl TypeError
   \<and> fst (pick_port (fixed_session [''sh: netstat: command not found\<newline>''] [''warning\<newline>''])
          (Some ''localhost'') 20 25 2222)
       = Inl (NoCommandFoundError
           ''netstats is not installed on the localhost device. Please install it and try again'')
   \<and> fst (pick_port (fixed_session [''sh: netstat: command not found\<newline>''] [])
          (Some ''localhost'') 20 25 22)
       = Inl (NoCommandFoundError
           ''netstats is not installed on the localhost device. Please install it and try again'')
   \<and> fst (pick_port (cpython_session [''sh: netstat: command not found\<newline>''] [''warning\<newline>''])
          (Some ''localhost'') 20 25 2222)
       = fst (pick_port (cpython_session [''sh: netstat: command not found\<newline>''] [])
          (Some ''localhost'') 20 25 22)"
proof -
  have a: "accepts (fixed_session out []) netstat_call
             = accepts (fixed_session out [''warning\<newline>'']) netstat_call" for out
    by (simp add: fixed_session_def)
  have c: "fst (child (fixed_session out []) netstat_call [])
             = fst (child (fixed_session out [''warning\<newline>'']) netstat_call [])" for out
    by (simp add: fixed_session_def)
  have a': "accepts (cpython_session out [''warning\<newline>'']) netstat_call
             = accepts (cpython_session out []) netstat_call" for out
    by (simp add: cpython_session_def)
  have c': "fst (child (cpython_session out [''warning\<newline>'']) netstat_call [])
             = fst (child (cpython_session out []) netstat_call [])" for out
    by (simp add: cpython_session_def)
  have e1: "fst (pick_port (fixed_session [''tcp 0 0 0.0.0.0:22 0.0.0.0:* LISTEN\<newline>''] [])
          None 20 25 22) = Inl TypeError"
    by code_simp
  have e2: "fst (pick_port (fixed_session [''sh: netstat: command not found\<newline>''] [])
          (Some ''localhost'') 20 25 22)
       = Inl (NoCommandFoundError
           ''netstats is not installed on the localhost device. Please install it and try again'')"
    by code_simp
  from pick_port_deterministic
         [OF a [of "[''tcp 0 0 0.0.0.0:22 0.0.0.0:* LISTEN\<newline>'']"]
             c [of "[''tcp 0 0 0.0.0.0:22 0.0.0.0:* LISTEN\<newline>'']"], of None 20 25 22 2222]
       pick_port_deterministic
         [OF a [of "[''sh: netstat: command not found\<newline>'']"]
             c [of "[''sh: netstat: command not found\<newline>'']"],
          of "Some ''localhost''" 20 25 22 2222]
       pick_port_deterministic
         [OF a' [of "[''sh: netstat: command not found\<newline>'']"]
             c' [of "[''sh: netstat: command not found\<newline>'']"],
          of "Some ''localhost''" 20 25 2222 22]
       a e1 e2
  show ?thesis by simp
qed

subsection \<open>C9: which hosts are local\<close>

text \<open>
  Claim C9: \<^verbatim>\<open>pick_port\<close> spawns the local \<^verbatim>\<open>netstat\<close> (and nothing else) exactly when
  \<^verbatim>\<open>host\<close> is \<^verbatim>\<open>None\<close> or contains \<^verbatim>\<open>local\<close> anywhere; for every other host its first
  action is the ssh call of \<^verbatim>\<open>remote_operations\<close> in tty mode.
\<close>

theorem local_branch_iff_host_contains_local:
  "(hd (snd (pick_port w host port_min port_max ssh_port)) = PopenCall netstat_call
      \<longleftrightarrow> (case host of None \<Rightarrow> True | Some h \<Rightarrow> sublist ''local'' h))
   \<and> ((case host of None \<Rightarrow> True | Some h \<Rightarrow> sublist ''local'' h) \<longrightarrow>
        snd (pick_port w host port_min port_max ssh_port) = snd (local_listing w))
   \<and> (\<forall>h. host = Some h \<and> \<not> sublist ''local'' h \<longrightarrow>
        hd (snd (pick_port w host port_min port_max ssh_port)) = PopenCall (tty_call h ssh_port))"
  by (cases host)
    (simp_all add: pick_port_trace get_listing_def local_listing_trace
      remote_operations_trace_hd call_neq)

text \<open>
  An instance: \<^verbatim>\<open>mylocaldomain.com\<close> is treated as the local machine.
\<close>

theorem local_branch_iff_host_contains_local_witness:
  "sublist ''local'' ''mylocaldomain.com''
   \<and> hd (snd (pick_port (fixed_session [] []) (Some ''mylocaldomain.com'') 20 25 22))
       = PopenCall netstat_call
   \<and> snd (pick_port (fixed_session [] []) (Some ''mylocaldomain.com'') 20 25 22)
       = [PopenCall netstat_call, StdoutReadlines, Terminate]"
proof -
  have h: "sublist ''local'' ''mylocaldomain.com''" by code_simp
  from local_branch_iff_host_contains_local
         [of "fixed_session [] []" "Some ''mylocaldomain.com''" 20 25 22] h
  show ?thesis by (simp add: local_listing_def Popen_def fixed_session_def)
qed


subsection \<open>C10: no error check, no RemoteCommandError\<close>

text \<open>
  Claim C10: with \<^verbatim>\<open>catch_errors=False\<close> the call never raises RemoteCommandError, in either
  mode and whatever the error stream holds; without a tty \<^verbatim>\<open>stderr.readlines()\<close> is not
  called at all.
\<close>

theorem no_RemoteCommandError_without_catch_errors:
  "fst (remote_operations w remote_host commands port False tty_session banner_size)
     \<noteq> Inl (RemoteCommandError msg)
   \<and> (\<not> tty_session \<longrightarrow>
        StderrReadlines \<notin> set (snd (remote_operations w remote_host commands port False
          tty_session banner_size)))"
proof (cases tty_session)
  case tty: True
  show ?thesis
  proof (cases "accepts w (tty_call remote_host port)")
    case True
    from remote_operations_tty [OF this] tty show ?thesis by simp
  next
    case False
    then have "\<not> accepts w (if True then tty_call remote_host port
                            else shell_call remote_host port)" by simp
    from remote_operations_rejected [OF this] tty show ?thesis by simp
  qed
next
  case sh: False
  show ?thesis
  proof (cases "accepts w (shell_call remote_host port)")
    case True
    from remote_operations_shell [OF this] sh show ?thesis by (auto simp: Let_def)
  next
    case False
    then have "\<not> accepts w (if False then tty_call remote_host port
                            else shell_call remote_host port)" by simp
    from remote_operations_rejected [OF this] sh show ?thesis by simp
  qed
qed

text \<open>
  An instance: the session writes an error line; the call returns and the error stream is
  not read.
\<close>

theorem no_RemoteCommandError_without_catch_errors_witness:
  "fst (remote_operations (fixed_session [] [''ls: cannot access /x\<newline>'']) ''host'' [''ls /x'']
          22 False False 0) \<noteq> Inl (RemoteCommandError ''ls: cannot access /x\<newline>'')
   \<and> StderrReadlines \<notin> set (snd (remote_operations (fixed_session [] [''ls: cannot access /x\<newline>''])
          ''host'' [''ls /x''] 22 False False 0))"
  using no_RemoteCommandError_without_catch_errors
          [of "fixed_session [] [''ls: cannot access /x\<newline>'']" "''host''" "[''ls /x'']" 22 False 0
              "''ls: cannot access /x\<newline>''"]
  by simp

end
